theory Spec2Isabelle
  imports Complex_Main "HOL-Library.Log_Nat"
begin

section \<open>Data model\<close>

text \<open>
  The server (\<^verbatim>\<open>src/src/index.js\<close>) keeps two collections relevant to payments,
  \<^verbatim>\<open>parcels\<close> and \<^verbatim>\<open>payments\<close>, and talks to the checkout provider. A collection
  is a list of documents in insertion order. JavaScript numbers are IEEE 754 double
  precision values, with the rounding of every operation written out; dates are a
  number of milliseconds. Calls to the store
  (\<^verbatim>\<open>findOne\<close>, \<^verbatim>\<open>updateOne\<close>, \<^verbatim>\<open>insertOne\<close>, \<^verbatim>\<open>find\<close>) return; calls to the
  checkout provider return or throw, and so does the construction of an \<^verbatim>\<open>ObjectId\<close>.
  Every handler catches what is thrown and answers with status 500.
\<close>

subsection \<open>Errors and identifiers\<close>

datatype error =
    BSONError
  | ProviderError string

text \<open>
  An \<^verbatim>\<open>ObjectId\<close> is twelve bytes. It is represented by its canonical form, the 24
  lower-case hexadecimal digits that \<^verbatim>\<open>toHexString()\<close> prints.
\<close>

type_synonym objectid = string

definition isHexDigit :: "char \<Rightarrow> bool" where
  "isHexDigit c = (c \<in> set ''0123456789abcdefABCDEF'')"

definition hexLower :: "char \<Rightarrow> char" where
  "hexLower c = (case map_of (zip ''ABCDEF'' ''abcdef'') c of Some d \<Rightarrow> d | None \<Rightarrow> c)"

text \<open>
  \<^verbatim>\<open>new ObjectId(s)\<close> for a string \<^verbatim>\<open>s\<close>: the driver accepts exactly the strings of
  24 hexadecimal digits (either case) and throws otherwise.
\<close>

definition ObjectId :: "string \<Rightarrow> error + objectid" where
  "ObjectId s =
     (if length s = 24 \<and> list_all isHexDigit s then Inr (map hexLower s)
      else Inl BSONError)"

subsection \<open>JavaScript numbers\<close>

text \<open>
  A number is a finite double, given by its value, an infinity or \<^verbatim>\<open>NaN\<close>. The two
  zeros are not told apart.
\<close>

datatype number = Num rat | PosInfinity | NegInfinity | NaN

text \<open>
  The binade of a value other than zero: the exponent \<open>e\<close> with
  \<open>2 powi e \<le> \<bar>x\<bar> < 2 powi (e + 1)\<close>.
\<close>

definition binade :: "rat \<Rightarrow> int" where
  "binade x =
     (if 1 \<le> \<bar>x\<bar> then bitlen \<lfloor>\<bar>x\<bar>\<rfloor> - 1 else - bitlen (\<lceil>1 / \<bar>x\<bar>\<rceil> - 1))"

definition round_half_even :: "rat \<Rightarrow> int" where
  "round_half_even y =
     (let f = \<lfloor>y\<rfloor>; r = y - of_int f
      in if r < 1 / 2 then f else if 1 / 2 < r then f + 1 else if even f then f else f + 1)"

text \<open>
  Rounding to the nearest double, ties to even: 53 significant bits, and the spacing
  \<open>2 powi (- 1074)\<close> of the subnormal range at the least.
\<close>

definition fl :: "rat \<Rightarrow> rat" where
  "fl x =
     (if x = 0 then 0
      else let q = max (binade x - 52) (- 1074)
           in of_int (round_half_even (x / 2 powi q)) * 2 powi q)"

text \<open>
  The number that an exact value becomes: the result of an arithmetic operation, or a
  numeric literal of a JSON text read by \<^verbatim>\<open>JSON.parse\<close>. A value that rounds beyond the
  largest double overflows to an infinity.
\<close>

definition to_number :: "rat \<Rightarrow> number" where
  "to_number x =
     (let y = fl x
      in if 2 ^ 1024 \<le> y then PosInfinity
         else if y \<le> - (2 ^ 1024) then NegInfinity
         else Num y)"

text \<open>
  \<^verbatim>\<open>a / k\<close> and \<^verbatim>\<open>a * k\<close> for a positive constant \<^verbatim>\<open>k\<close> (the code has 110 and 100), and
  \<^verbatim>\<open>Math.ceil\<close>.
\<close>

definition js_divide :: "number \<Rightarrow> rat \<Rightarrow> number" where
  "js_divide a k = (case a of Num x \<Rightarrow> to_number (x / k) | _ \<Rightarrow> a)"



subsection \<open>Documents\<close>

text \<open>
  The checkout session as the provider returns it (the fields the server reads);
  \<^verbatim>\<open>amount_total\<close> is the integer written in the provider's JSON.
\<close>

record metadata =
  md_parcelId :: string
  md_parcelName :: string

record session =
  payment_status :: string
  amount_total :: int
  session_currency :: string
  customer_email :: string
  payment_intent :: string
  session_metadata :: metadata

text \<open>The \<^verbatim>\<open>payment\<close> object built by \<^verbatim>\<open>PATCH /payments\<close> (lines 256-266).\<close>

record payment =
  amount :: number
  currency :: string
  customerEmail :: string
  parcelId :: string
  parcelName :: string
  paymentStatus :: string
  paidAt :: nat
  transactionId :: string
  trackingId :: string

text \<open>
  A stored payment document: the inserted fields and the \<^verbatim>\<open>_id\<close> that the store
  assigns on \<^verbatim>\<open>insertOne\<close>.
\<close>

record payment_doc = payment +
  doc_id :: objectid

text \<open>A stored parcel document.\<close>

record parcel =
  parcel_id :: objectid
  senderEmail :: string
  parcel_charge :: rat
  parcel_name :: string
  parcel_paymentStatus :: string
  parcel_trackingId :: "string option"
  createdAt :: nat


record state =
  parcels :: "parcel list"
  payments :: "payment_doc list"

subsection \<open>Requests to the provider and to the store, responses\<close>



text \<open>The store operations a handler performs, in the order it performs them.\<close>

datatype store_op =
    Payments_findOne string
  | Parcels_updateOne objectid string
  | Payments_insertOne payment
  | Payments_find "string option" string int
  | Parcels_find "string option" string int

datatype response =
    Json_payment payment
  | Json_existingPayment payment_doc
  | Json_success_false
  | Json_url string
  | Json_payments "payment_doc list"
  | Json_parcels "parcel list"
  | Status403_Forbidden
  | Status500 error

section \<open>The store adapter\<close>

definition payments_findOne :: "string \<Rightarrow> payment_doc list \<Rightarrow> payment_doc option" where
  "payments_findOne pid ds = find (\<lambda>d. parcelId d = pid) ds"

text \<open>
  \<^verbatim>\<open>updateOne({_id: oid}, {$set: {paymentStatus: "paid", trackingId}})\<close>: the first
  document that matches is updated, a collection without a match is left as it is.
\<close>

fun parcels_updateOne :: "objectid \<Rightarrow> string \<Rightarrow> parcel list \<Rightarrow> parcel list" where
  "parcels_updateOne oid t [] = []"
| "parcels_updateOne oid t (p # ps) =
     (if parcel_id p = oid
      then p\<lparr>parcel_paymentStatus := ''paid'', parcel_trackingId := Some t\<rparr> # ps
      else p # parcels_updateOne oid t ps)"

definition stored :: "payment \<Rightarrow> objectid \<Rightarrow> payment_doc" where
  "stored p i = payment.extend p (payment_doc.fields i)"

definition payments_insertOne :: "payment \<Rightarrow> objectid \<Rightarrow> payment_doc list \<Rightarrow> payment_doc list" where
  "payments_insertOne p i ds = ds @ [stored p i]"

definition parcels_findOne :: "objectid \<Rightarrow> parcel list \<Rightarrow> parcel option" where
  "parcels_findOne oid ps = find (\<lambda>p. parcel_id p = oid) ps"

section \<open>InitiateCheckout: \<^verbatim>\<open>POST /payments\<close> (lines 214-247)\<close>




section \<open>SettleCheckout: \<^verbatim>\<open>PATCH /payments\<close> (lines 249-294)\<close>

definition build_payment :: "session \<Rightarrow> string \<Rightarrow> nat \<Rightarrow> payment" where
  "build_payment s t now =
     \<lparr> amount = js_divide (to_number (of_int (amount_total s))) 100,
       currency = session_currency s,
       customerEmail = customer_email s,
       parcelId = md_parcelId (session_metadata s),
       parcelName = md_parcelName (session_metadata s),
       paymentStatus = payment_status s,
       paidAt = now,
       transactionId = payment_intent s,
       trackingId = t \<rparr>"

text \<open>
  \<^verbatim>\<open>retrieve\<close> is the provider's \<^verbatim>\<open>checkout.sessions.retrieve\<close>; \<^verbatim>\<open>t\<close> is what
  \<^verbatim>\<open>generateTrackingId()\<close> returns in this call, \<^verbatim>\<open>now\<close> is \<^verbatim>\<open>new Date()\<close>, and \<^verbatim>\<open>fresh\<close> is
  the \<^verbatim>\<open>_id\<close> the store gives to a document inserted in this call. The result is the
  response, the new state and the store operations performed.
\<close>

definition SettleCheckout ::
    "(string \<Rightarrow> error + session) \<Rightarrow> string \<Rightarrow> nat \<Rightarrow> objectid \<Rightarrow> string \<Rightarrow> state
      \<Rightarrow> response \<times> state \<times> store_op list" where
  "SettleCheckout retrieve t now fresh sessionId st =
     (case retrieve sessionId of
        Inl err \<Rightarrow> (Status500 err, st, [])
      | Inr s \<Rightarrow>
          let paid = (payment_status s = ''paid'');
              payment = build_payment s t now;
              pid = md_parcelId (session_metadata s)
          in (case payments_findOne pid (payments st) of
                Some existingPayment \<Rightarrow>
                  (Json_existingPayment existingPayment, st, [Payments_findOne pid])
              | None \<Rightarrow>
                  if paid then
                    (case ObjectId pid of
                       Inl err \<Rightarrow> (Status500 err, st, [Payments_findOne pid])
                     | Inr oid \<Rightarrow>
                         (Json_payment payment,
                          st\<lparr> parcels := parcels_updateOne oid t (parcels st),
                              payments := payments_insertOne payment fresh (payments st) \<rparr>,
                          [Payments_findOne pid, Parcels_updateOne oid t,
                           Payments_insertOne payment]))
                  else (Json_success_false, st, [Payments_findOne pid])))"

text \<open>A sequence of calls, one after the other; each call has its own environment.\<close>

record call =
  call_retrieve :: "string \<Rightarrow> error + session"
  call_trackingId :: string
  call_now :: nat
  call_fresh :: objectid
  call_sessionId :: string

definition settle :: "call \<Rightarrow> state \<Rightarrow> response \<times> state \<times> store_op list" where
  "settle c st =
     SettleCheckout (call_retrieve c) (call_trackingId c) (call_now c) (call_fresh c)
       (call_sessionId c) st"

fun settle_all :: "call list \<Rightarrow> state \<Rightarrow> state" where
  "settle_all [] st = st"
| "settle_all (c # cs) st = settle_all cs (fst (snd (settle c st)))"

section \<open>The owner-scoped listings: \<^verbatim>\<open>GET /payments\<close>, \<^verbatim>\<open>GET /parcels\<close>\<close>

text \<open>
  The request after \<^verbatim>\<open>verifyFirebaseToken\<close> has run: the query parameters, strings
  where they are present (\<^verbatim>\<open>q_owner\<close> is \<^verbatim>\<open>customerEmail\<close> for payments and
  \<^verbatim>\<open>senderEmail\<close> for parcels), and \<^verbatim>\<open>req.headers.email\<close>, the email of the verified
  token (a token need not carry one).
\<close>

record get_request =
  q_owner :: "string option"
  q_sort :: "string option"
  q_order :: "string option"
  headers_email :: "string option"

text \<open>\<^verbatim>\<open>if (req.query[key]) query[key] = req.query[key]\<close>: an empty string is falsy.\<close>

definition build_query :: "get_request \<Rightarrow> string option" where
  "build_query req =
     (case q_owner req of None \<Rightarrow> None | Some v \<Rightarrow> if v = [] then None else Some v)"

definition sortField :: "get_request \<Rightarrow> string" where
  "sortField req =
     (case q_sort req of None \<Rightarrow> ''createdAt'' | Some f \<Rightarrow> if f = [] then ''createdAt'' else f)"

definition sortOrder :: "get_request \<Rightarrow> int" where
  "sortOrder req = (if q_order req = Some ''asc'' then 1 else - 1)"

definition matches :: "('d \<Rightarrow> string) \<Rightarrow> string option \<Rightarrow> 'd \<Rightarrow> bool" where
  "matches owner query d = (case query of None \<Rightarrow> True | Some e \<Rightarrow> owner d = e)"

text \<open>
  \<^verbatim>\<open>cursor_sort\<close> is the store's \<^verbatim>\<open>.sort({[field]: order})\<close>, a parameter of the model.
\<close>

definition GetPayments ::
    "(string \<Rightarrow> int \<Rightarrow> payment_doc list \<Rightarrow> payment_doc list) \<Rightarrow> get_request \<Rightarrow> state
      \<Rightarrow> response \<times> store_op list" where
  "GetPayments cursor_sort req st =
     (let query = build_query req in
      if query \<noteq> headers_email req then (Status403_Forbidden, [])
      else (Json_payments
              (cursor_sort (sortField req) (sortOrder req)
                 (filter (matches customerEmail query) (payments st))),
            [Payments_find query (sortField req) (sortOrder req)]))"

definition GetParcels ::
    "(string \<Rightarrow> int \<Rightarrow> parcel list \<Rightarrow> parcel list) \<Rightarrow> get_request \<Rightarrow> state
      \<Rightarrow> response \<times> store_op list" where
  "GetParcels cursor_sort req st =
     (let query = build_query req in
      if query \<noteq> headers_email req then (Status403_Forbidden, [])
      else (Json_parcels
              (cursor_sort (sortField req) (sortOrder req)
                 (filter (matches senderEmail query) (parcels st))),
            [Parcels_find query (sortField req) (sortOrder req)]))"

section \<open>Notions used in the statements\<close>

text \<open>
  The Payment record that a response of \<^verbatim>\<open>PATCH /payments\<close> carries: the payment object
  itself (line 287), or the fields of the stored document without its \<^verbatim>\<open>_id\<close>
  (line 272); \<^verbatim>\<open>{success: false}\<close> and an error carry none.
\<close>

definition payment_of :: "response \<Rightarrow> payment option" where
  "payment_of r =
     (case r of
        Json_payment p \<Rightarrow> Some p
      | Json_existingPayment d \<Rightarrow> Some (payment.truncate d)
      | _ \<Rightarrow> None)"

text \<open>A parcel before and after: the same parcel, and still paid if it was paid.\<close>

definition paid_stays :: "parcel \<Rightarrow> parcel \<Rightarrow> bool" where
  "paid_stays p p' \<longleftrightarrow>
     parcel_id p' = parcel_id p \<and>
     (parcel_paymentStatus p = ''paid'' \<longrightarrow> parcel_paymentStatus p' = ''paid'')"



section \<open>Example data\<close>

definition ex_session :: "string \<Rightarrow> string \<Rightarrow> session" where
  "ex_session status pid =
     \<lparr> payment_status = status, amount_total = 2000, session_currency = ''usd'',
       customer_email = ''a@x.com'', payment_intent = ''pi_1'',
       session_metadata = \<lparr> md_parcelId = pid, md_parcelName = ''Box'' \<rparr> \<rparr>"

definition ex_retrieve :: "session \<Rightarrow> string \<Rightarrow> error + session" where
  "ex_retrieve s sid =
     (if sid = ''sess_1'' then Inr s else Inl (ProviderError ''No such checkout.session''))"

definition ex_parcel :: parcel where
  "ex_parcel =
     \<lparr> parcel_id = ''507f1f77bcf86cd799439011'', senderEmail = ''a@x.com'',
       parcel_charge = 2200, parcel_name = ''Box'', parcel_paymentStatus = ''unpaid'',
       parcel_trackingId = None, createdAt = 1 \<rparr>"

definition ex_state :: state where
  "ex_state = \<lparr> parcels = [ex_parcel], payments = [] \<rparr>"

definition ex_doc :: payment_doc where
  "ex_doc =
     stored (build_payment (ex_session ''paid'' ''507f1f77bcf86cd799439011'') ''TRK-1'' 5)
       ''650000000000000000000001''"

definition ex_paid_state :: state where
  "ex_paid_state =
     \<lparr> parcels =
         [ex_parcel\<lparr>parcel_paymentStatus := ''paid'', parcel_trackingId := Some ''TRK-1''\<rparr>],
       payments = [ex_doc] \<rparr>"

definition ex_call :: "string \<Rightarrow> string \<Rightarrow> string \<Rightarrow> nat \<Rightarrow> objectid \<Rightarrow> call" where
  "ex_call status pid t now fresh =
     \<lparr> call_retrieve = ex_retrieve (ex_session status pid), call_trackingId = t,
       call_now = now, call_fresh = fresh, call_sessionId = ''sess_1'' \<rparr>"

definition ex_request :: "string option \<Rightarrow> string option \<Rightarrow> get_request" where
  "ex_request owner email =
     \<lparr> q_owner = owner, q_sort = None, q_order = None, headers_email = email \<rparr>"



lemmas ex_defs = ex_session_def ex_retrieve_def ex_parcel_def ex_state_def ex_doc_def

section \<open>Lemmas about double precision\<close>

text \<open>The binade is the exponent it is meant to be, and the only one.\<close>

lemma binade_bounds:
  assumes "x \<noteq> 0"
  shows "2 powi binade x \<le> \<bar>x\<bar> \<and> \<bar>x\<bar> < 2 powi (binade x + 1)"
proof (cases "1 \<le> \<bar>x\<bar>")
  case True
  define m where "m = \<lfloor>\<bar>x\<bar>\<rfloor>"
  define b where "b = bitlen m"
  from True have m: "1 \<le> m" by (simp add: m_def le_floor_iff)
  then have bb: "2 ^ nat (b - 1) \<le> m" "m < 2 ^ nat b"
    using bitlen_bounds [of m] by (simp_all add: b_def)
  from m have b1: "1 \<le> b" unfolding b_def
    using bitlen_eq_zero_iff [of m] bitlen_nonneg [of m] by linarith
  have e: "binade x = b - 1" using True by (simp add: binade_def b_def m_def)
  have "(2::rat) powi (b - 1) = 2 ^ nat (b - 1)" using b1 by (simp add: power_int_nonneg_exp)
  also have "\<dots> = of_int (2 ^ nat (b - 1))" by simp
  also have "\<dots> \<le> of_int m" using bb(1) by (simp only: of_int_le_iff)
  also have "\<dots> \<le> \<bar>x\<bar>" by (simp add: m_def)
  finally have lo: "2 powi (b - 1) \<le> \<bar>x\<bar>" .
  have "\<bar>x\<bar> < of_int (m + 1)" unfolding m_def by linarith
  also have "\<dots> \<le> of_int (2 ^ nat b)" using bb(2) by (simp only: of_int_le_iff)
  also have "\<dots> = (2::rat) powi b" using b1 by (simp add: power_int_nonneg_exp)
  finally have hi: "\<bar>x\<bar> < 2 powi b" .
  from lo hi e show ?thesis by simp
next
  case False
  define y where "y = 1 / \<bar>x\<bar>"
  define m where "m = \<lceil>y\<rceil>"
  define k where "k = bitlen (m - 1)"
  from False assms have x: "0 < \<bar>x\<bar>" "\<bar>x\<bar> < 1" by simp_all
  then have y1: "1 < y" by (simp add: y_def)
  then have m2: "2 \<le> m" unfolding m_def by linarith
  then have bb: "2 ^ nat (k - 1) \<le> m - 1" "m - 1 < 2 ^ nat k"
    using bitlen_bounds [of "m - 1"] by (simp_all add: k_def)
  from m2 have k1: "1 \<le> k" unfolding k_def
    using bitlen_eq_zero_iff [of "m - 1"] bitlen_nonneg [of "m - 1"] by linarith
  have e: "binade x = - k" using False by (simp add: binade_def k_def m_def y_def)
  have "y \<le> of_int m" unfolding m_def by linarith
  also have "\<dots> \<le> of_int (2 ^ nat k)" using bb(2) by (simp only: of_int_le_iff)
  also have "\<dots> = (2::rat) ^ nat k" by simp
  finally have "y \<le> 2 ^ nat k" .
  then have "1 / 2 ^ nat k \<le> \<bar>x\<bar>" using x(1)
    by (simp add: y_def field_simps)
  moreover have "(2::rat) powi (- k) = 1 / 2 ^ nat k" using k1
    by (simp add: power_int_minus_divide power_int_nonneg_exp)
  ultimately have lo: "2 powi (- k) \<le> \<bar>x\<bar>" by simp
  have "(2::rat) ^ nat (k - 1) = of_int (2 ^ nat (k - 1))" by simp
  also have "\<dots> \<le> of_int (m - 1)" using bb(1) by (simp only: of_int_le_iff)
  also have "\<dots> < y" unfolding m_def by linarith
  finally have "2 ^ nat (k - 1) < y" .
  then have "\<bar>x\<bar> < 1 / 2 ^ nat (k - 1)" using x(1)
    by (simp add: y_def field_simps)
  moreover have "(2::rat) powi (- k + 1) = 1 / 2 ^ nat (k - 1)" using k1
    using power_int_minus_divide [of "2::rat" "k - 1"] by (simp add: power_int_nonneg_exp)
  ultimately have hi: "\<bar>x\<bar> < 2 powi (- k + 1)" by simp
  from lo hi e show ?thesis by simp
qed

lemma binade_unique:
  assumes "2 powi e \<le> \<bar>x\<bar>" and "\<bar>x\<bar> < 2 powi (e + 1)"
  shows "binade x = e"
proof -
  have "(0::rat) < 2 powi e" by simp
  with assms(1) have "0 < \<bar>x\<bar>" by linarith
  then have "x \<noteq> 0" by simp
  from binade_bounds [OF this] assms
  have "(2::rat) powi e < 2 powi (binade x + 1)" "(2::rat) powi binade x < 2 powi (e + 1)"
    by linarith+
  then have "e < binade x + 1" "binade x < e + 1"
    using power_int_increasing [of "binade x + 1" e "2::rat"]
      power_int_increasing [of "e + 1" "binade x" "2::rat"]
    by (auto simp: not_less [symmetric])
  then show ?thesis by simp
qed


lemma round_half_even_cases:
  obtains (down) "round_half_even y = \<lfloor>y\<rfloor>" "y - of_int \<lfloor>y\<rfloor> \<le> 1 / 2"
  | (up) "round_half_even y = \<lfloor>y\<rfloor> + 1" "1 / 2 \<le> y - of_int \<lfloor>y\<rfloor>"
  unfolding round_half_even_def Let_def
  by (cases "y - of_int \<lfloor>y\<rfloor> < 1 / 2"; cases "1 / 2 < y - of_int \<lfloor>y\<rfloor>"; cases "even \<lfloor>y\<rfloor>")
    (simp_all add: not_less)


lemma round_half_even_unique:
  assumes "\<bar>y - of_int n\<bar> < 1 / 2"
  shows "round_half_even y = n"
proof -
  from assms have n: "of_int n - 1 / 2 < y" "y < of_int n + 1 / 2" by linarith+
  from n(1) have "of_int (n - 1) \<le> y" by simp
  then have lo: "n - 1 \<le> \<lfloor>y\<rfloor>" by (simp only: le_floor_iff)
  from n(2) have "y < of_int (n + 1)" by simp
  then have hi: "\<lfloor>y\<rfloor> < n + 1" by (simp only: floor_less_iff)
  show ?thesis
  proof (cases y rule: round_half_even_cases)
    case down
    have "\<lfloor>y\<rfloor> \<noteq> n - 1"
    proof
      assume "\<lfloor>y\<rfloor> = n - 1"
      with down(2) have "y - (of_int n - 1) \<le> 1 / 2" by simp
      with n(1) show False by linarith
    qed
    with lo hi down(1) show ?thesis by simp
  next
    case up
    have "\<lfloor>y\<rfloor> \<noteq> n"
    proof
      assume "\<lfloor>y\<rfloor> = n"
      with up(2) have "1 / 2 \<le> y - of_int n" by simp
      with n(2) show False by linarith
    qed
    with lo hi up(1) show ?thesis by simp
  qed
qed

lemma round_half_even_of_int [simp]: "round_half_even (of_int n) = n"
  by (rule round_half_even_unique) simp

lemma fl_eqI:
  assumes "2 powi e \<le> \<bar>x\<bar>" and "\<bar>x\<bar> < 2 powi (e + 1)"
    and "q = max (e - 52) (- 1074)"
    and "\<bar>x / 2 powi q - of_int n\<bar> < 1 / 2"
  shows "fl x = of_int n * 2 powi q"
proof -
  have "(0::rat) < 2 powi e" by simp
  with assms(1) have "0 < \<bar>x\<bar>" by linarith
  then have "x \<noteq> 0" by simp
  moreover from assms(1,2) have "binade x = e" by (rule binade_unique)
  ultimately show ?thesis
    using round_half_even_unique [OF assms(4)] by (simp add: fl_def Let_def assms(3))
qed

lemma binade_less:
  assumes "x \<noteq> 0" and "\<bar>x\<bar> < 2 powi m"
  shows "binade x < m"
proof (rule ccontr)
  assume "\<not> binade x < m"
  then have "(2::rat) powi m \<le> 2 powi binade x"
    by (intro power_int_increasing) simp_all
  with binade_bounds [OF assms(1)] assms(2) show False by linarith
qed


lemma fl_of_int:
  assumes "\<bar>k\<bar> < 2 ^ 53"
  shows "fl (of_int k) = of_int k"
proof (cases "k = 0")
  case True
  then show ?thesis by (simp add: fl_def)
next
  case False
  define x :: rat where "x = of_int k"
  define q where "q = max (binade x - 52) (- 1074)"
  from False have x0: "x \<noteq> 0" by (simp add: x_def)
  from assms have "\<bar>x\<bar> < of_int (2 ^ 53)" unfolding x_def
    by (simp only: of_int_abs [symmetric] of_int_less_iff)
  then have "\<bar>x\<bar> < 2 powi 53" by simp
  with x0 have "binade x < 53" by (rule binade_less)
  then have q: "q \<le> 0" by (simp add: q_def)
  then have pq: "(2::rat) powi q = 1 / 2 ^ nat (- q)"
    using power_int_minus_divide [of "2::rat" "- q"] by (simp add: power_int_nonneg_exp)
  then have "x / 2 powi q = of_int (k * 2 ^ nat (- q))" by (simp add: x_def)
  then have "round_half_even (x / 2 powi q) = k * 2 ^ nat (- q)"
    by (simp only: round_half_even_of_int)
  then have "fl x = of_int (k * 2 ^ nat (- q)) * 2 powi q"
    using x0 by (simp add: fl_def Let_def q_def [symmetric])
  also have "\<dots> = of_int k" by (simp add: pq)
  finally show ?thesis by (simp add: x_def)
qed



text \<open>
  Whole numbers below \<open>2 ^ 53\<close> are doubles, and the computations of the handlers are
  exact on whole charges up to \<open>10 ^ 15\<close>.
\<close>

lemma to_number_of_int:
  assumes "\<bar>k\<bar> < 2 ^ 53"
  shows "to_number (of_int k) = Num (of_int k)"
proof -
  from assms have "(of_int \<bar>k\<bar> :: rat) < of_int (2 ^ 53)" by (simp only: of_int_less_iff)
  then have "\<bar>of_int k :: rat\<bar> < 2 ^ 53" by simp
  moreover have "(2::rat) ^ 53 < 2 ^ 1024" by simp
  ultimately have "(of_int k :: rat) < 2 ^ 1024" "- (2 ^ 1024) < (of_int k :: rat)" by linarith+
  with fl_of_int [OF assms] show ?thesis by (simp add: to_number_def Let_def not_le)
qed




lemma amount_exact:
  assumes "\<bar>n\<bar> \<le> 10 ^ 13"
  shows "js_divide (to_number (of_int (n * 100))) 100 = Num (of_int n)"
proof -
  from assms have "\<bar>n * 100\<bar> < 2 ^ 53" "\<bar>n\<bar> < 2 ^ 53" by (simp_all add: abs_mult)
  then have "to_number (of_int (n * 100)) = Num (of_int (n * 100))"
    "to_number (of_int n) = Num (of_int n)"
    by (simp_all only: to_number_of_int)
  then show ?thesis by (simp add: js_divide_def)
qed


lemma ex_amount [simp]: "js_divide (to_number 2000) 100 = Num 20"
  using amount_exact [of 20] by simp

section \<open>The model of doubles at some values\<close>

text \<open>
  The rounding at values of each kind: a large whole number and the quotients and
  products the handlers form from it, a decimal fraction, the subnormal range,
  overflow, and ties.
\<close>

lemma to_number_eqI:
  assumes "2 powi e \<le> \<bar>x\<bar>" and "\<bar>x\<bar> < 2 powi (e + 1)"
    and "q = max (e - 52) (- 1074)"
    and "\<bar>x / 2 powi q - of_int n\<bar> < 1 / 2"
    and "\<bar>of_int n * 2 powi q :: rat\<bar> < 2 ^ 1024"
  shows "to_number x = Num (of_int n * 2 powi q)"
  using fl_eqI [OF assms(1-4)] assms(5) by (simp add: to_number_def Let_def not_le) linarith


lemma at_one_tenth: "to_number (1 / 10) = Num (3602879701896397 / 2 ^ 55)"
  using to_number_eqI [of "- 4" "1 / 10" "- 56" 7205759403792794]
  by (simp add: power_int_minus_divide)

lemma at_5e_324:
  "to_number (5 / 10 ^ 324) = Num (1 / 2 ^ 1074)"
  "js_divide (Num (1 / 2 ^ 1074)) 110 = Num 0"
  using to_number_eqI [of "- 1074" "5 / 10 ^ 324" "- 1074" 1]
    to_number_eqI [of "- 1081" "1 / 2 ^ 1074 / 110" "- 1074" 0]
  by (simp_all add: power_int_minus_divide js_divide_def)

lemma at_1e400: "to_number (10 ^ 400) = PosInfinity"
proof -
  have "fl (10 ^ 400) = 7686445155841023 * 2 powi 1276"
    using fl_eqI [of 1328 "10 ^ 400" 1276 7686445155841023] by simp
  then show ?thesis by (simp add: to_number_def)
qed

lemma round_half_even_tie:
  "round_half_even (of_int n + 1 / 2) = (if even n then n else n + 1)"
proof -
  have "\<lfloor>of_int n + 1 / 2 :: rat\<rfloor> = n" by (rule floor_unique) simp_all
  then show ?thesis by (simp add: round_half_even_def)
qed

lemma ties_to_even:
  "to_number (2 ^ 53 + 1) = Num (2 ^ 53)"
  "to_number (2 ^ 53 + 3) = Num (2 ^ 53 + 4)"
proof -
  have b: "binade (2 ^ 53 + 1) = 53" "binade (2 ^ 53 + 3) = 53"
    by (rule binade_unique; simp)+
  have "((2::rat) ^ 53 + 1) / 2 powi 1 = of_int 4503599627370496 + 1 / 2"
    "((2::rat) ^ 53 + 3) / 2 powi 1 = of_int 4503599627370497 + 1 / 2"
    by simp_all
  then have "round_half_even (((2::rat) ^ 53 + 1) / 2 powi 1) = 4503599627370496"
    "round_half_even (((2::rat) ^ 53 + 3) / 2 powi 1) = 4503599627370498"
    by (simp_all only: round_half_even_tie) simp_all
  with b show "to_number (2 ^ 53 + 1) = Num (2 ^ 53)" "to_number (2 ^ 53 + 3) = Num (2 ^ 53 + 4)"
    by (simp_all add: to_number_def fl_def Let_def)
qed


section \<open>Lemmas about the store adapter\<close>

lemma stored_simps:
  "parcelId (stored p i) = parcelId p"
  "payment.truncate (stored p i) = p"
  "doc_id (stored p i) = i"
  "amount (stored p i) = amount p"
  "trackingId (stored p i) = trackingId p"
  by (simp_all add: stored_def payment.defs payment_doc.defs)

lemma findOne_None_iff:
  "payments_findOne pid ds = None \<longleftrightarrow> (\<forall>d\<in>set ds. parcelId d \<noteq> pid)"
  by (auto simp: payments_findOne_def find_None_iff)

lemma findOne_Some_D:
  "payments_findOne pid ds = Some d \<Longrightarrow> d \<in> set ds \<and> parcelId d = pid"
  by (auto simp: payments_findOne_def find_Some_iff)

lemma findOne_append:
  "payments_findOne pid (ds @ [d]) =
     (case payments_findOne pid ds of
        Some x \<Rightarrow> Some x
      | None \<Rightarrow> if parcelId d = pid then Some d else None)"
  by (induction ds) (auto simp: payments_findOne_def)

lemma updateOne_ids: "map parcel_id (parcels_updateOne oid t ps) = map parcel_id ps"
  by (induction ps) auto

lemma updateOne_paid_stays:
  "list_all2 (\<lambda>p p'. parcel_id p' = parcel_id p \<and>
       (parcel_paymentStatus p = ''paid'' \<longrightarrow> parcel_paymentStatus p' = ''paid''))
     ps (parcels_updateOne oid t ps)"
  by (induction ps) (auto simp: list_all2_same list.rel_refl)

lemma updateOne_findOne_same:
  "parcels_findOne oid (parcels_updateOne oid t ps) =
     map_option (\<lambda>p. p\<lparr>parcel_paymentStatus := ''paid'', parcel_trackingId := Some t\<rparr>)
       (parcels_findOne oid ps)"
  by (induction ps) (auto simp: parcels_findOne_def)

lemma updateOne_findOne_other:
  "oid' \<noteq> oid \<Longrightarrow> parcels_findOne oid' (parcels_updateOne oid t ps) = parcels_findOne oid' ps"
  by (induction ps) (auto simp: parcels_findOne_def)

lemma distinct_count_le_1:
  "distinct (map f xs) \<Longrightarrow> length (filter (\<lambda>x. f x = k) xs) \<le> 1"
  by (induction xs) (auto simp: filter_empty_conv image_iff)

lemma ObjectId_ex [simp]:
  "ObjectId ''507f1f77bcf86cd799439011'' = Inr ''507f1f77bcf86cd799439011''"
  "ObjectId ''507F1F77BCF86CD799439011'' = Inr ''507f1f77bcf86cd799439011''"
  "ObjectId ''P1'' = Inl BSONError"
  by (simp_all add: ObjectId_def isHexDigit_def hexLower_def)

section \<open>The branches of SettleCheckout\<close>

lemma Settle_retrieve_fails:
  "retrieve sid = Inl e \<Longrightarrow> SettleCheckout retrieve t now fresh sid st = (Status500 e, st, [])"
  by (simp add: SettleCheckout_def)

lemma Settle_existing:
  "retrieve sid = Inr s \<Longrightarrow>
   payments_findOne (md_parcelId (session_metadata s)) (payments st) = Some d \<Longrightarrow>
   SettleCheckout retrieve t now fresh sid st =
     (Json_existingPayment d, st, [Payments_findOne (md_parcelId (session_metadata s))])"
  by (simp add: SettleCheckout_def Let_def)

lemma Settle_unpaid:
  "retrieve sid = Inr s \<Longrightarrow>
   payments_findOne (md_parcelId (session_metadata s)) (payments st) = None \<Longrightarrow>
   payment_status s \<noteq> ''paid'' \<Longrightarrow>
   SettleCheckout retrieve t now fresh sid st =
     (Json_success_false, st, [Payments_findOne (md_parcelId (session_metadata s))])"
  by (simp add: SettleCheckout_def Let_def)

lemma Settle_invalid:
  "retrieve sid = Inr s \<Longrightarrow>
   payments_findOne (md_parcelId (session_metadata s)) (payments st) = None \<Longrightarrow>
   payment_status s = ''paid'' \<Longrightarrow> ObjectId (md_parcelId (session_metadata s)) = Inl e \<Longrightarrow>
   SettleCheckout retrieve t now fresh sid st =
     (Status500 e, st, [Payments_findOne (md_parcelId (session_metadata s))])"
  by (simp add: SettleCheckout_def Let_def)

lemma Settle_paid:
  "retrieve sid = Inr s \<Longrightarrow>
   payments_findOne (md_parcelId (session_metadata s)) (payments st) = None \<Longrightarrow>
   payment_status s = ''paid'' \<Longrightarrow> ObjectId (md_parcelId (session_metadata s)) = Inr oid \<Longrightarrow>
   SettleCheckout retrieve t now fresh sid st =
     (Json_payment (build_payment s t now),
      st\<lparr> parcels := parcels_updateOne oid t (parcels st),
          payments := payments st @ [stored (build_payment s t now) fresh] \<rparr>,
      [Payments_findOne (md_parcelId (session_metadata s)), Parcels_updateOne oid t,
       Payments_insertOne (build_payment s t now)])"
  by (simp add: SettleCheckout_def Let_def payments_insertOne_def)

text \<open>Every call either leaves the store as it is or takes the paid branch.\<close>

lemma SettleCheckout_cases:
  obtains (unchanged) r ops where
      "SettleCheckout retrieve t now fresh sid st = (r, st, ops)"
      "\<forall>p. r \<noteq> Json_payment p"
  | (inserted) s oid where
      "retrieve sid = Inr s"
      "payments_findOne (md_parcelId (session_metadata s)) (payments st) = None"
      "payment_status s = ''paid''"
      "ObjectId (md_parcelId (session_metadata s)) = Inr oid"
      "SettleCheckout retrieve t now fresh sid st =
        (Json_payment (build_payment s t now),
         st\<lparr> parcels := parcels_updateOne oid t (parcels st),
             payments := payments st @ [stored (build_payment s t now) fresh] \<rparr>,
         [Payments_findOne (md_parcelId (session_metadata s)), Parcels_updateOne oid t,
          Payments_insertOne (build_payment s t now)])"
proof (cases "retrieve sid")
  case (Inl e)
  then show ?thesis using unchanged [of "Status500 e" "[]"]
    by (simp add: Settle_retrieve_fails)
next
  case (Inr s)
  let ?pid = "md_parcelId (session_metadata s)"
  show ?thesis
  proof (cases "payments_findOne ?pid (payments st)")
    case (Some d)
    with Inr show ?thesis
      using unchanged [of "Json_existingPayment d" "[Payments_findOne ?pid]"]
      by (simp add: Settle_existing)
  next
    case None
    show ?thesis
    proof (cases "payment_status s = ''paid''")
      case False
      with Inr None show ?thesis
        using unchanged [of Json_success_false "[Payments_findOne ?pid]"]
        by (simp add: Settle_unpaid)
    next
      case True
      show ?thesis
      proof (cases "ObjectId ?pid")
        case (Inl e)
        with \<open>retrieve sid = Inr s\<close> None True show ?thesis
          using unchanged [of "Status500 e" "[Payments_findOne ?pid]"]
          by (simp add: Settle_invalid)
      next
        case (Inr oid)
        from \<open>retrieve sid = Inr s\<close> None True Inr show ?thesis
          by (rule inserted) (simp add: Settle_paid \<open>retrieve sid = Inr s\<close> None True Inr)
      qed
    qed
  qed
qed

section \<open>Sequences of calls\<close>

lemma settle_cases:
  obtains (unchanged) r ops where "settle c st = (r, st, ops)" "\<forall>p. r \<noteq> Json_payment p"
  | (inserted) s oid where
      "call_retrieve c (call_sessionId c) = Inr s"
      "payments_findOne (md_parcelId (session_metadata s)) (payments st) = None"
      "payment_status s = ''paid''"
      "ObjectId (md_parcelId (session_metadata s)) = Inr oid"
      "fst (snd (settle c st)) =
         st\<lparr> parcels := parcels_updateOne oid (call_trackingId c) (parcels st),
             payments := payments st @
               [stored (build_payment s (call_trackingId c) (call_now c)) (call_fresh c)] \<rparr>"
  unfolding settle_def
  by (rule SettleCheckout_cases
      [of "call_retrieve c" "call_trackingId c" "call_now c" "call_fresh c" "call_sessionId c" st])
    auto

lemma paid_stays_refl: "list_all2 paid_stays ps ps"
  by (simp add: list_all2_same paid_stays_def)

lemma paid_stays_trans:
  "list_all2 paid_stays ps qs \<Longrightarrow> list_all2 paid_stays qs rs \<Longrightarrow> list_all2 paid_stays ps rs"
  by (rule list_all2_trans [of paid_stays paid_stays paid_stays]) (auto simp: paid_stays_def)

lemma settle_paid_stays: "list_all2 paid_stays (parcels st) (parcels (fst (snd (settle c st))))"
proof (cases rule: settle_cases [of c st])
  case (unchanged r ops)
  then show ?thesis by (simp add: paid_stays_refl)
next
  case (inserted s oid)
  then show ?thesis
    using updateOne_paid_stays [of "parcels st" oid "call_trackingId c"]
    by (simp add: paid_stays_def [abs_def])
qed

lemma settle_all_paid_stays: "list_all2 paid_stays (parcels st) (parcels (settle_all cs st))"
proof (induction cs arbitrary: st)
  case Nil
  show ?case by (simp add: paid_stays_refl)
next
  case (Cons c cs)
  from settle_paid_stays [of st c] Cons [of "fst (snd (settle c st))"]
  show ?case by (auto intro: paid_stays_trans)
qed

lemma settle_not_paid_unchanged:
  assumes "\<forall>s. call_retrieve c (call_sessionId c) = Inr s \<longrightarrow> payment_status s \<noteq> ''paid''"
  shows "fst (snd (settle c st)) = st"
  by (cases rule: settle_cases [of c st]) (use assms in auto)

lemma settle_all_not_paid_unchanged:
  assumes "\<forall>c\<in>set cs. \<forall>s. call_retrieve c (call_sessionId c) = Inr s \<longrightarrow>
             payment_status s \<noteq> ''paid''"
  shows "settle_all cs st = st"
  using assms by (induction cs) (simp_all add: settle_not_paid_unchanged)

lemma settle_distinct:
  assumes "distinct (map parcelId (payments st))"
  shows "distinct (map parcelId (payments (fst (snd (settle c st)))))"
proof (cases rule: settle_cases [of c st])
  case (unchanged r ops)
  with assms show ?thesis by simp
next
  case (inserted s oid)
  from inserted(2) have "md_parcelId (session_metadata s) \<notin> parcelId ` set (payments st)"
    by (auto simp: findOne_None_iff)
  with assms inserted(5) show ?thesis
    by (simp add: stored_simps build_payment_def)
qed

lemma settle_all_distinct:
  "distinct (map parcelId (payments st)) \<Longrightarrow>
   distinct (map parcelId (payments (settle_all cs st)))"
  by (induction cs arbitrary: st) (simp_all add: settle_distinct)



text \<open>Two calls in a row for the same session identifier, the provider's answer unchanged.\<close>

lemma twice_aux:
  assumes "SettleCheckout retrieve t1 n1 f1 sid st = (r1, st1, ops1)"
    and "SettleCheckout retrieve t2 n2 f2 sid st1 = (r2, st2, ops2)"
  shows "st2 = st1 \<and> payment_of r2 = payment_of r1
       \<and> ((\<forall>p. r1 \<noteq> Json_payment p) \<longrightarrow> st1 = st \<and> r2 = r1)
       \<and> (\<forall>p. r1 = Json_payment p \<longrightarrow>
             r2 = Json_existingPayment (stored p f1)
             \<and> payments st1 = payments st @ [stored p f1])"
proof (cases rule: SettleCheckout_cases [of retrieve t1 n1 f1 sid st])
  case (unchanged r ops)
  with assms(1) have eq: "r1 = r" "st1 = st" by simp_all
  have "r2 = r1"
    using assms unchanged(2) unfolding eq
    by (auto simp: SettleCheckout_def Let_def split: sum.splits option.splits if_splits)
  moreover have "st2 = st1"
    using assms unchanged(2) unfolding eq
    by (auto simp: SettleCheckout_def Let_def split: sum.splits option.splits if_splits)
  ultimately show ?thesis using eq unchanged(2) by simp
next
  case (inserted s oid)
  let ?p = "build_payment s t1 n1"
  from assms(1) inserted(5) have eq: "r1 = Json_payment ?p"
    "st1 = st\<lparr> parcels := parcels_updateOne oid t1 (parcels st),
               payments := payments st @ [stored ?p f1] \<rparr>"
    by simp_all
  have "payments_findOne (md_parcelId (session_metadata s)) (payments st1) = Some (stored ?p f1)"
    using inserted(2) by (simp add: eq findOne_append stored_simps build_payment_def)
  with inserted(1) have "SettleCheckout retrieve t2 n2 f2 sid st1 =
      (Json_existingPayment (stored ?p f1), st1,
       [Payments_findOne (md_parcelId (session_metadata s))])"
    by (rule Settle_existing)
  with assms(2) have "r2 = Json_existingPayment (stored ?p f1)" "st2 = st1" by simp_all
  then show ?thesis using eq by (simp add: payment_of_def stored_simps)
qed

section \<open>Idempotent settlement\<close>

text \<open>
  Claim C1, as stated, at an unpaid session: two calls of SettleCheckout for the session
  identifier \<^verbatim>\<open>sess_1\<close> both answer \<^verbatim>\<open>{success: false}\<close>, which is no Payment record, and
  the payments collection is empty afterwards: no Payment document is created, not one.
\<close>

theorem SettleCheckout_twice_counterexample:
  "SettleCheckout (ex_retrieve (ex_session ''unpaid'' ''507f1f77bcf86cd799439011''))
      ''TRK-1'' 5 ''650000000000000000000001'' ''sess_1'' ex_state =
     (Json_success_false, ex_state, [Payments_findOne ''507f1f77bcf86cd799439011''])
   \<and> SettleCheckout (ex_retrieve (ex_session ''unpaid'' ''507f1f77bcf86cd799439011''))
      ''TRK-2'' 9 ''650000000000000000000002'' ''sess_1'' ex_state =
     (Json_success_false, ex_state, [Payments_findOne ''507f1f77bcf86cd799439011''])
   \<and> payment_of Json_success_false = None
   \<and> payments ex_state = []"
  by (simp add: ex_defs SettleCheckout_def Let_def payments_findOne_def payment_of_def)

text \<open>
  Claim C1, amended. Let SettleCheckout be called twice in sequence for the same session
  identifier, the provider returning the same answer to both calls. Then the second call
  writes nothing, and both calls carry the same Payment record or both carry none.
  If the session is paid, its parcelId is a valid ObjectId string and no payment with
  this parcelId is stored, the first call answers with the payment it inserts, the
  second with the stored document of that payment (the same fields, with the \<^verbatim>\<open>_id\<close>
  of the store; in particular the tracking id of the first call), and exactly one
  document has been added to the collection. For every other session the two calls give
  the same response and the store is as before the first call. More generally, a
  collection with at most one payment for every parcelId keeps this property through
  any sequence of calls.
\<close>

theorem SettleCheckout_twice:
  assumes "SettleCheckout retrieve t1 n1 f1 sid st = (r1, st1, ops1)"
    and "SettleCheckout retrieve t2 n2 f2 sid st1 = (r2, st2, ops2)"
  shows "st2 = st1
       \<and> payment_of r2 = payment_of r1
       \<and> (retrieve sid = Inr s \<and> payment_status s = ''paid''
            \<and> ObjectId (md_parcelId (session_metadata s)) = Inr oid
            \<and> (\<forall>d\<in>set (payments st). parcelId d \<noteq> md_parcelId (session_metadata s))
          \<longrightarrow> r1 = Json_payment (build_payment s t1 n1)
              \<and> r2 = Json_existingPayment (stored (build_payment s t1 n1) f1)
              \<and> payments st2 = payments st @ [stored (build_payment s t1 n1) f1])
       \<and> (\<not> (\<exists>s' oid'. retrieve sid = Inr s' \<and> payment_status s' = ''paid''
                 \<and> ObjectId (md_parcelId (session_metadata s')) = Inr oid'
                 \<and> (\<forall>d\<in>set (payments st). parcelId d \<noteq> md_parcelId (session_metadata s')))
          \<longrightarrow> st2 = st \<and> r2 = r1)
       \<and> (distinct (map parcelId (payments st)) \<longrightarrow>
            distinct (map parcelId (payments (settle_all cs st)))
            \<and> (\<forall>pid. length (filter (\<lambda>d. parcelId d = pid) (payments (settle_all cs st))) \<le> 1))"
proof -
  note aux = twice_aux [OF assms]
  have paid: "r1 = Json_payment (build_payment s t1 n1)"
    if "retrieve sid = Inr s" "payment_status s = ''paid''"
      "ObjectId (md_parcelId (session_metadata s)) = Inr oid"
      "\<forall>d\<in>set (payments st). parcelId d \<noteq> md_parcelId (session_metadata s)"
  proof -
    from that(4) have "payments_findOne (md_parcelId (session_metadata s)) (payments st) = None"
      by (simp add: findOne_None_iff)
    with that(1) have "SettleCheckout retrieve t1 n1 f1 sid st =
        (Json_payment (build_payment s t1 n1),
         st\<lparr> parcels := parcels_updateOne oid t1 (parcels st),
             payments := payments st @ [stored (build_payment s t1 n1) f1] \<rparr>,
         [Payments_findOne (md_parcelId (session_metadata s)), Parcels_updateOne oid t1,
          Payments_insertOne (build_payment s t1 n1)])"
      using that(2,3) by (rule Settle_paid)
    with assms(1) show ?thesis by simp
  qed
  have seq: "distinct (map parcelId (payments (settle_all cs st)))
      \<and> (\<forall>pid. length (filter (\<lambda>d. parcelId d = pid) (payments (settle_all cs st))) \<le> 1)"
    if "distinct (map parcelId (payments st))"
    using settle_all_distinct [OF that, of cs]
      distinct_count_le_1 [of parcelId "payments (settle_all cs st)"] by simp
  have other: "st2 = st \<and> r2 = r1"
    if "\<not> (\<exists>s' oid'. retrieve sid = Inr s' \<and> payment_status s' = ''paid''
                 \<and> ObjectId (md_parcelId (session_metadata s')) = Inr oid'
                 \<and> (\<forall>d\<in>set (payments st). parcelId d \<noteq> md_parcelId (session_metadata s')))"
  proof (cases rule: SettleCheckout_cases [of retrieve t1 n1 f1 sid st])
    case (unchanged r ops)
    with assms(1) aux show ?thesis by simp
  next
    case (inserted s' oid')
    with that show ?thesis by (auto simp: findOne_None_iff)
  qed
  from aux paid seq other show ?thesis by blast
qed

text \<open>
  The theorem at a paid session and a store without payments: the first call inserts
  the payment, the second returns the stored document, one document has been added.
\<close>

theorem SettleCheckout_twice_witness:
  "SettleCheckout (ex_retrieve (ex_session ''paid'' ''507f1f77bcf86cd799439011''))
      ''TRK-1'' 5 ''650000000000000000000001'' ''sess_1'' ex_state =
     (Json_payment (build_payment (ex_session ''paid'' ''507f1f77bcf86cd799439011'') ''TRK-1'' 5),
      ex_paid_state,
      [Payments_findOne ''507f1f77bcf86cd799439011'',
       Parcels_updateOne ''507f1f77bcf86cd799439011'' ''TRK-1'',
       Payments_insertOne
         (build_payment (ex_session ''paid'' ''507f1f77bcf86cd799439011'') ''TRK-1'' 5)])
   \<and> SettleCheckout (ex_retrieve (ex_session ''paid'' ''507f1f77bcf86cd799439011''))
      ''TRK-2'' 9 ''650000000000000000000002'' ''sess_1'' ex_paid_state =
     (Json_existingPayment ex_doc, ex_paid_state,
      [Payments_findOne ''507f1f77bcf86cd799439011''])
   \<and> payments ex_paid_state = payments ex_state @ [ex_doc]
   \<and> payment_of (Json_existingPayment ex_doc) =
       Some (build_payment (ex_session ''paid'' ''507f1f77bcf86cd799439011'') ''TRK-1'' 5)
   \<and> distinct (map parcelId (payments (settle_all
        [ex_call ''paid'' ''507f1f77bcf86cd799439011'' ''TRK-1'' 5 ''650000000000000000000001'',
         ex_call ''paid'' ''507f1f77bcf86cd799439011'' ''TRK-2'' 9 ''650000000000000000000002'']
        ex_state)))"
proof -
  have 1: "SettleCheckout (ex_retrieve (ex_session ''paid'' ''507f1f77bcf86cd799439011''))
      ''TRK-1'' 5 ''650000000000000000000001'' ''sess_1'' ex_state =
     (Json_payment (build_payment (ex_session ''paid'' ''507f1f77bcf86cd799439011'') ''TRK-1'' 5),
      ex_paid_state,
      [Payments_findOne ''507f1f77bcf86cd799439011'',
       Parcels_updateOne ''507f1f77bcf86cd799439011'' ''TRK-1'',
       Payments_insertOne
         (build_payment (ex_session ''paid'' ''507f1f77bcf86cd799439011'') ''TRK-1'' 5)])"
    by (simp add: ex_defs ex_paid_state_def SettleCheckout_def Let_def payments_findOne_def
        payments_insertOne_def)
  have 2: "SettleCheckout (ex_retrieve (ex_session ''paid'' ''507f1f77bcf86cd799439011''))
      ''TRK-2'' 9 ''650000000000000000000002'' ''sess_1'' ex_paid_state =
     (Json_existingPayment ex_doc, ex_paid_state,
      [Payments_findOne ''507f1f77bcf86cd799439011''])"
    by (simp add: ex_defs ex_paid_state_def SettleCheckout_def Let_def payments_findOne_def
        stored_simps build_payment_def)
  from SettleCheckout_twice [OF 1 2,
      where s = "ex_session ''paid'' ''507f1f77bcf86cd799439011''"
        and oid = "''507f1f77bcf86cd799439011''"
        and cs = "[ex_call ''paid'' ''507f1f77bcf86cd799439011'' ''TRK-1'' 5
                     ''650000000000000000000001'',
                   ex_call ''paid'' ''507f1f77bcf86cd799439011'' ''TRK-2'' 9
                     ''650000000000000000000002'']"] 1 2
  show ?thesis
    by (simp add: payment_of_def ex_paid_state_def ex_state_def)
qed

section \<open>Payments and paid parcels\<close>




section \<open>Settling a paid session\<close>

text \<open>
  Claim C3, as stated, at the parcelId \<^verbatim>\<open>P1\<close>: the session is paid, its
  metadata.parcelId is \<^verbatim>\<open>P1\<close> and no payment is stored, yet the call answers with status
  500, updates no parcel and inserts no payment, because \<^verbatim>\<open>P1\<close> is not an ObjectId.
\<close>

theorem SettleCheckout_paid_new_counterexample:
  "payment_status (ex_session ''paid'' ''P1'') = ''paid''
   \<and> md_parcelId (session_metadata (ex_session ''paid'' ''P1'')) = ''P1''
   \<and> payments ex_state = []
   \<and> SettleCheckout (ex_retrieve (ex_session ''paid'' ''P1''))
        ''TRK-2'' 9 ''650000000000000000000002'' ''sess_1'' ex_state =
      (Status500 BSONError, ex_state, [Payments_findOne ''P1''])"
  by (simp add: ex_defs SettleCheckout_def Let_def payments_findOne_def)

text \<open>
  Claim C3, amended: for a call where the retrieved session is paid, its
  metadata.parcelId is a valid ObjectId string and no payment with this parcelId is
  stored, the operation first updates the parcel with this \<^verbatim>\<open>_id\<close>, if there is one,
  setting paymentStatus to \<^verbatim>\<open>paid\<close> and trackingId to the generated tracking id (every
  other parcel, and the identifiers of all, stay as they are), and then inserts exactly
  one payment: amount \<^verbatim>\<open>amount_total / 100\<close>, currency, customer email, parcelId, parcel
  name, status \<^verbatim>\<open>paid\<close>, the timestamp, transactionId \<^verbatim>\<open>payment_intent\<close> and the same
  tracking id. The response is this payment.
\<close>

theorem SettleCheckout_paid_new:
  assumes "retrieve sid = Inr s"
    and "payment_status s = ''paid''"
    and "\<forall>d\<in>set (payments st). parcelId d \<noteq> md_parcelId (session_metadata s)"
    and "ObjectId (md_parcelId (session_metadata s)) = Inr oid"
  shows "\<exists>st'. SettleCheckout retrieve t now fresh sid st =
           (Json_payment
              \<lparr> amount = js_divide (to_number (of_int (amount_total s))) 100,
                currency = session_currency s,
                customerEmail = customer_email s,
                parcelId = md_parcelId (session_metadata s),
                parcelName = md_parcelName (session_metadata s),
                paymentStatus = ''paid'',
                paidAt = now,
                transactionId = payment_intent s,
                trackingId = t \<rparr>,
            st',
            [Payments_findOne (md_parcelId (session_metadata s)),
             Parcels_updateOne oid t,
             Payments_insertOne
               \<lparr> amount = js_divide (to_number (of_int (amount_total s))) 100,
                 currency = session_currency s,
                 customerEmail = customer_email s,
                 parcelId = md_parcelId (session_metadata s),
                 parcelName = md_parcelName (session_metadata s),
                 paymentStatus = ''paid'',
                 paidAt = now,
                 transactionId = payment_intent s,
                 trackingId = t \<rparr>])
         \<and> payments st' = payments st @
             [stored
               \<lparr> amount = js_divide (to_number (of_int (amount_total s))) 100,
                 currency = session_currency s,
                 customerEmail = customer_email s,
                 parcelId = md_parcelId (session_metadata s),
                 parcelName = md_parcelName (session_metadata s),
                 paymentStatus = ''paid'',
                 paidAt = now,
                 transactionId = payment_intent s,
                 trackingId = t \<rparr> fresh]
         \<and> map parcel_id (parcels st') = map parcel_id (parcels st)
         \<and> parcels_findOne oid (parcels st') =
             map_option (\<lambda>p. p\<lparr>parcel_paymentStatus := ''paid'', parcel_trackingId := Some t\<rparr>)
               (parcels_findOne oid (parcels st))
         \<and> (\<forall>oid'. oid' \<noteq> oid \<longrightarrow>
               parcels_findOne oid' (parcels st') = parcels_findOne oid' (parcels st))"
proof -
  from assms(3) have none:
    "payments_findOne (md_parcelId (session_metadata s)) (payments st) = None"
    by (simp add: findOne_None_iff)
  have bp: "build_payment s t now =
      \<lparr> amount = js_divide (to_number (of_int (amount_total s))) 100,
        currency = session_currency s,
        customerEmail = customer_email s,
        parcelId = md_parcelId (session_metadata s),
        parcelName = md_parcelName (session_metadata s),
        paymentStatus = ''paid'',
        paidAt = now,
        transactionId = payment_intent s,
        trackingId = t \<rparr>"
    using assms(2) by (simp add: build_payment_def)
  have "SettleCheckout retrieve t now fresh sid st =
      (Json_payment (build_payment s t now),
       st\<lparr> parcels := parcels_updateOne oid t (parcels st),
           payments := payments st @ [stored (build_payment s t now) fresh] \<rparr>,
       [Payments_findOne (md_parcelId (session_metadata s)), Parcels_updateOne oid t,
        Payments_insertOne (build_payment s t now)])"
    using assms(1) none assms(2) assms(4) by (rule Settle_paid)
  then show ?thesis
    unfolding bp
    by (simp add: updateOne_ids updateOne_findOne_same updateOne_findOne_other)
qed

text \<open>The theorem at the example store and a paid session for the example parcel.\<close>

theorem SettleCheckout_paid_new_witness:
  "\<exists>st'. SettleCheckout (ex_retrieve (ex_session ''paid'' ''507f1f77bcf86cd799439011''))
          ''TRK-1'' 5 ''650000000000000000000001'' ''sess_1'' ex_state =
        (Json_payment
           \<lparr> amount = Num 20, currency = ''usd'', customerEmail = ''a@x.com'',
             parcelId = ''507f1f77bcf86cd799439011'', parcelName = ''Box'',
             paymentStatus = ''paid'', paidAt = 5, transactionId = ''pi_1'',
             trackingId = ''TRK-1'' \<rparr>,
         st',
         [Payments_findOne ''507f1f77bcf86cd799439011'',
          Parcels_updateOne ''507f1f77bcf86cd799439011'' ''TRK-1'',
          Payments_insertOne
            \<lparr> amount = Num 20, currency = ''usd'', customerEmail = ''a@x.com'',
              parcelId = ''507f1f77bcf86cd799439011'', parcelName = ''Box'',
              paymentStatus = ''paid'', paidAt = 5, transactionId = ''pi_1'',
              trackingId = ''TRK-1'' \<rparr>])
      \<and> payments st' = [ex_doc]
      \<and> parcels_findOne ''507f1f77bcf86cd799439011'' (parcels st') =
          Some (ex_parcel\<lparr>parcel_paymentStatus := ''paid'', parcel_trackingId := Some ''TRK-1''\<rparr>)"
  using SettleCheckout_paid_new
    [of "ex_retrieve (ex_session ''paid'' ''507f1f77bcf86cd799439011'')" "''sess_1''"
        "ex_session ''paid'' ''507f1f77bcf86cd799439011''" ex_state
        "''507f1f77bcf86cd799439011''" "''TRK-1''" 5 "''650000000000000000000001''"]
  by (auto simp: ex_defs build_payment_def parcels_findOne_def)

section \<open>Sessions that are not paid\<close>

text \<open>
  Claim C4. For every SettleCheckout call whose retrieved session has a payment status
  other than \<^verbatim>\<open>paid\<close>, with no stored payment that matches the session's parcelId, the
  store is unchanged (no payment is created, no parcel is touched), the only store
  operation is the lookup, and the response is \<^verbatim>\<open>{success: false}\<close>. There is no
  transition out of \<^verbatim>\<open>paid\<close>: through any sequence of calls every parcel keeps its
  identifier, and a parcel that was paid is paid afterwards. And \<^verbatim>\<open>unpaid\<close> persists:
  a sequence of calls none of which retrieves a paid session leaves the store as it was.
\<close>

theorem SettleCheckout_not_paid:
  "(retrieve sid = Inr s \<and> payment_status s \<noteq> ''paid'' \<and>
      (\<forall>d\<in>set (payments st). parcelId d \<noteq> md_parcelId (session_metadata s))
     \<longrightarrow> SettleCheckout retrieve t now fresh sid st =
           (Json_success_false, st, [Payments_findOne (md_parcelId (session_metadata s))]))
   \<and> list_all2 paid_stays (parcels st) (parcels (settle_all cs st))
   \<and> ((\<forall>c\<in>set cs. \<forall>s'. call_retrieve c (call_sessionId c) = Inr s' \<longrightarrow>
          payment_status s' \<noteq> ''paid'')
        \<longrightarrow> settle_all cs st = st)"
  using settle_all_paid_stays [of st cs] settle_all_not_paid_unchanged [of cs st]
  by (auto simp: Settle_unpaid findOne_None_iff)

text \<open>
  The theorem at the example store and sessions with the payment status \<^verbatim>\<open>unpaid\<close> and
  \<^verbatim>\<open>no_payment_required\<close>, and at a store whose parcel is paid.
\<close>

theorem SettleCheckout_not_paid_witness:
  "SettleCheckout (ex_retrieve (ex_session ''unpaid'' ''507f1f77bcf86cd799439011''))
      ''TRK-1'' 5 ''650000000000000000000001'' ''sess_1'' ex_state =
     (Json_success_false, ex_state, [Payments_findOne ''507f1f77bcf86cd799439011''])
   \<and> settle_all
        [ex_call ''unpaid'' ''507f1f77bcf86cd799439011'' ''TRK-1'' 5 ''650000000000000000000001'',
         ex_call ''no_payment_required'' ''507f1f77bcf86cd799439011'' ''TRK-2'' 9 ''650000000000000000000002'']
        ex_state = ex_state
   \<and> list_all2 paid_stays (parcels ex_paid_state)
        (parcels (settle_all
          [ex_call ''paid'' ''507f1f77bcf86cd799439011'' ''TRK-2'' 9 ''650000000000000000000002'']
          ex_paid_state))"
  using SettleCheckout_not_paid
    [of "ex_retrieve (ex_session ''unpaid'' ''507f1f77bcf86cd799439011'')" "''sess_1''"
        "ex_session ''unpaid'' ''507f1f77bcf86cd799439011''" ex_state
        "''TRK-1''" 5 "''650000000000000000000001''"
        "[ex_call ''unpaid'' ''507f1f77bcf86cd799439011'' ''TRK-1'' 5 ''650000000000000000000001'',
          ex_call ''no_payment_required'' ''507f1f77bcf86cd799439011'' ''TRK-2'' 9 ''650000000000000000000002'']"]
    SettleCheckout_not_paid
    [of "ex_retrieve (ex_session ''unpaid'' ''507f1f77bcf86cd799439011'')" "''sess_1''"
        "ex_session ''unpaid'' ''507f1f77bcf86cd799439011''" ex_paid_state
        "''TRK-1''" 5 "''650000000000000000000001''"
        "[ex_call ''paid'' ''507f1f77bcf86cd799439011'' ''TRK-2'' 9 ''650000000000000000000002'']"]
  by (simp add: ex_defs ex_call_def)

section \<open>The request to the checkout provider\<close>




section \<open>Listings without an owner filter\<close>

text \<open>
  Claim C6, as stated, at a request with no owner filter, authenticated as
  \<^verbatim>\<open>a@x.com\<close>, on a store with one payment and one parcel: \<^verbatim>\<open>GET /payments\<close> answers
  with status 403 and not with the payments of the collection, and \<^verbatim>\<open>GET /parcels\<close>
  does not answer with the parcels of the collection.
\<close>

theorem listing_without_filter_counterexample:
  "build_query (ex_request None (Some ''a@x.com'')) = None
   \<and> fst (GetPayments (\<lambda>field order ds. ds) (ex_request None (Some ''a@x.com''))
        \<lparr> parcels = [ex_parcel], payments = [ex_doc] \<rparr>) = Status403_Forbidden
   \<and> fst (GetPayments (\<lambda>field order ds. ds) (ex_request None (Some ''a@x.com''))
        \<lparr> parcels = [ex_parcel], payments = [ex_doc] \<rparr>) \<noteq> Json_payments [ex_doc]
   \<and> fst (GetParcels (\<lambda>field order ds. ds) (ex_request None (Some ''a@x.com''))
        \<lparr> parcels = [ex_parcel], payments = [ex_doc] \<rparr>) = Status403_Forbidden
   \<and> fst (GetParcels (\<lambda>field order ds. ds) (ex_request None (Some ''a@x.com''))
        \<lparr> parcels = [ex_parcel], payments = [ex_doc] \<rparr>) \<noteq> Json_parcels [ex_parcel]"
  by (simp add: GetPayments_def GetParcels_def build_query_def ex_request_def)

text \<open>
  Claim C6, amended: for every authenticated request to \<^verbatim>\<open>GET /payments\<close> or
  \<^verbatim>\<open>GET /parcels\<close> in which no owner filter is supplied (the parameter is absent or
  empty) and whose token carries an email, the guard of lines 199 and 311 rejects the
  request with status 403 and no store query is executed; the response is therefore
  the same whichever authenticated email made the request.
\<close>

theorem listing_without_filter_forbidden:
  assumes "build_query req = None"
    and "headers_email req = Some a"
  shows "GetPayments sort_payments req st = (Status403_Forbidden, [])
       \<and> GetParcels sort_parcels req st = (Status403_Forbidden, [])
       \<and> GetPayments sort_payments (req\<lparr>headers_email := Some b\<rparr>) st =
           GetPayments sort_payments req st
       \<and> GetParcels sort_parcels (req\<lparr>headers_email := Some b\<rparr>) st =
           GetParcels sort_parcels req st"
  using assms by (simp add: GetPayments_def GetParcels_def build_query_def)

text \<open>The theorem at requests with an empty filter, from \<^verbatim>\<open>a@x.com\<close> and \<^verbatim>\<open>b@x.com\<close>.\<close>

theorem listing_without_filter_forbidden_witness:
  "build_query (ex_request (Some []) (Some ''a@x.com'')) = None
   \<and> headers_email (ex_request (Some []) (Some ''a@x.com'')) = Some ''a@x.com''
   \<and> GetPayments (\<lambda>field order ds. ds) (ex_request (Some []) (Some ''a@x.com''))
        \<lparr> parcels = [ex_parcel], payments = [ex_doc] \<rparr> = (Status403_Forbidden, [])
   \<and> GetParcels (\<lambda>field order ds. ds) (ex_request (Some []) (Some ''b@x.com''))
        \<lparr> parcels = [ex_parcel], payments = [ex_doc] \<rparr> = (Status403_Forbidden, [])"
  using listing_without_filter_forbidden
    [of "ex_request (Some []) (Some ''a@x.com'')" "''a@x.com''"
        "\<lambda>field order ds. ds" "\<lparr> parcels = [ex_parcel], payments = [ex_doc] \<rparr>"
        "\<lambda>field order ds. ds" "''b@x.com''"]
  by (simp add: build_query_def ex_request_def)

section \<open>Listings with a foreign owner filter\<close>

text \<open>
  Claim C7. Every authenticated \<^verbatim>\<open>GET /payments\<close> request whose customerEmail
  parameter differs from the authenticated email is rejected with status 403, and no
  store query is executed.
\<close>

theorem GetPayments_owner_mismatch:
  assumes "headers_email req = Some a"
    and "q_owner req = Some b"
    and "b \<noteq> a"
  shows "GetPayments cursor_sort req st = (Status403_Forbidden, [])"
  using assms by (simp add: GetPayments_def build_query_def Let_def)

text \<open>The theorem at \<^verbatim>\<open>/payments?customerEmail=b@x.com\<close>, authenticated as \<^verbatim>\<open>a@x.com\<close>.\<close>

theorem GetPayments_owner_mismatch_witness:
  "headers_email (ex_request (Some ''b@x.com'') (Some ''a@x.com'')) = Some ''a@x.com''
   \<and> q_owner (ex_request (Some ''b@x.com'') (Some ''a@x.com'')) = Some ''b@x.com''
   \<and> ''b@x.com'' \<noteq> ''a@x.com''
   \<and> GetPayments (\<lambda>field order ds. ds) (ex_request (Some ''b@x.com'') (Some ''a@x.com''))
        \<lparr> parcels = [ex_parcel], payments = [ex_doc] \<rparr> = (Status403_Forbidden, [])"
  using GetPayments_owner_mismatch
    [of "ex_request (Some ''b@x.com'') (Some ''a@x.com'')" "''a@x.com''" "''b@x.com''"
        "\<lambda>field order ds. ds" "\<lparr> parcels = [ex_parcel], payments = [ex_doc] \<rparr>"]
  by (simp add: ex_request_def)

section \<open>An existing payment comes first\<close>

text \<open>
  Claim C8. For every SettleCheckout call where a stored payment has the parcelId of the
  retrieved session, the response is a stored payment with this parcelId (the first
  one; the one, when there is no other), the store is unchanged and the lookup is the
  only store operation. Nothing is assumed about the session's payment status: the
  lookup comes before the paid check.
\<close>

theorem SettleCheckout_existing_first:
  assumes "retrieve sid = Inr s"
    and "d \<in> set (payments st)"
    and "parcelId d = md_parcelId (session_metadata s)"
  shows "\<exists>e. SettleCheckout retrieve t now fresh sid st =
           (Json_existingPayment e, st, [Payments_findOne (md_parcelId (session_metadata s))])
         \<and> e \<in> set (payments st) \<and> parcelId e = md_parcelId (session_metadata s)
         \<and> ((\<forall>x\<in>set (payments st). parcelId x = parcelId d \<longrightarrow> x = d) \<longrightarrow> e = d)"
proof -
  let ?pid = "md_parcelId (session_metadata s)"
  from assms(2,3) have "payments_findOne ?pid (payments st) \<noteq> None"
    by (auto simp: findOne_None_iff)
  then obtain e where e: "payments_findOne ?pid (payments st) = Some e" by blast
  have "SettleCheckout retrieve t now fresh sid st =
          (Json_existingPayment e, st, [Payments_findOne ?pid])"
    using assms(1) e by (rule Settle_existing)
  with findOne_Some_D [OF e] assms(3) show ?thesis
    by auto
qed

text \<open>The theorem at a session that is not paid, on a store that holds its payment.\<close>

theorem SettleCheckout_existing_first_witness:
  "ex_retrieve (ex_session ''unpaid'' ''507f1f77bcf86cd799439011'') ''sess_1'' =
     Inr (ex_session ''unpaid'' ''507f1f77bcf86cd799439011'')
   \<and> ex_doc \<in> set (payments ex_paid_state)
   \<and> parcelId ex_doc = ''507f1f77bcf86cd799439011''
   \<and> SettleCheckout (ex_retrieve (ex_session ''unpaid'' ''507f1f77bcf86cd799439011''))
        ''TRK-2'' 9 ''650000000000000000000002'' ''sess_1'' ex_paid_state =
      (Json_existingPayment ex_doc, ex_paid_state,
       [Payments_findOne ''507f1f77bcf86cd799439011''])"
  using SettleCheckout_existing_first
    [of "ex_retrieve (ex_session ''unpaid'' ''507f1f77bcf86cd799439011'')" "''sess_1''"
        "ex_session ''unpaid'' ''507f1f77bcf86cd799439011''" ex_doc
        ex_paid_state "''TRK-2''" 9 "''650000000000000000000002''"]
  by (auto simp: ex_defs ex_paid_state_def stored_simps build_payment_def)

section \<open>A parcelId that is not an ObjectId\<close>

text \<open>
  Claim C9. If the retrieved session is paid, no stored payment has its parcelId, and
  this parcelId is not a valid ObjectId string, then SettleCheckout answers with the
  error (status 500) and neither collection is changed: the construction of the
  ObjectId throws after the lookup and before both writes.
\<close>

theorem SettleCheckout_invalid_id:
  assumes "retrieve sid = Inr s"
    and "payment_status s = ''paid''"
    and "\<forall>d\<in>set (payments st). parcelId d \<noteq> md_parcelId (session_metadata s)"
    and "\<forall>oid. ObjectId (md_parcelId (session_metadata s)) \<noteq> Inr oid"
  shows "SettleCheckout retrieve t now fresh sid st =
           (Status500 BSONError, st, [Payments_findOne (md_parcelId (session_metadata s))])"
proof -
  from assms(4) have "ObjectId (md_parcelId (session_metadata s)) = Inl BSONError"
    by (simp add: ObjectId_def split: if_splits)
  with assms(1,2,3) show ?thesis
    by (simp add: Settle_invalid findOne_None_iff)
qed

text \<open>The theorem at a paid session with the parcelId \<^verbatim>\<open>P1\<close>.\<close>

theorem SettleCheckout_invalid_id_witness:
  "payment_status (ex_session ''paid'' ''P1'') = ''paid''
   \<and> ObjectId (md_parcelId (session_metadata (ex_session ''paid'' ''P1''))) = Inl BSONError
   \<and> SettleCheckout (ex_retrieve (ex_session ''paid'' ''P1''))
        ''TRK-2'' 9 ''650000000000000000000002'' ''sess_1'' ex_state =
      (Status500 BSONError, ex_state, [Payments_findOne ''P1''])"
  using SettleCheckout_invalid_id
    [of "ex_retrieve (ex_session ''paid'' ''P1'')" "''sess_1''" "ex_session ''paid'' ''P1''"
        ex_state "''TRK-2''" 9 "''650000000000000000000002''"]
  by (simp add: ex_defs)

section \<open>Amounts from checkout to settlement\<close>




end
